theory Spec2Isabelle
  imports Main
begin

section \<open>The PTY helper: data model\<close>

text \<open>
  The helper (\<^verbatim>\<open>src/infrastructure/pty/pty-helper.py\<close>) is one Python class,
  \<^verbatim>\<open>PtyHelper\<close>, with three fields, and a \<^verbatim>\<open>main\<close> function around its event
  loop. Everything the helper writes to its standard output goes through \<^verbatim>\<open>_send\<close>;
  the fourth field of the record below, \<open>stdout\<close>, is the list of the messages handed to
  \<^verbatim>\<open>_send\<close>, oldest first.
\<close>

datatype event =
    Spawned int
  | Output string
  | Exit int
  | Error string
  | Killed

record helper =
  master_fd :: "int option"
  pid :: "int option"
  running :: bool
  stdout :: "event list"

definition init :: helper where
  "init = \<lparr>master_fd = None, pid = None, running = False, stdout = []\<rparr>"

text \<open>
  The values \<^verbatim>\<open>json.loads\<close> returns. A Python \<^verbatim>\<open>dict\<close> is the list of its items
  (looked up with \<open>map_of\<close>). A float is never computed with; it carries its literal.
\<close>

datatype json =
    JNull
  | JBool bool
  | JInt int
  | JFloat string
  | JStr string
  | JArr "json list"
  | JObj "(string \<times> json) list"

text \<open>\<^verbatim>\<open>d.get(key, default)\<close> on a dict.\<close>

definition dict_get :: "(string \<times> json) list \<Rightarrow> string \<Rightarrow> json \<Rightarrow> json" where
  "dict_get kvs k d = (case map_of kvs k of None \<Rightarrow> d | Some v \<Rightarrow> v)"

text \<open>
  The exceptions the helper can meet. \<open>OSError\<close> carries the text \<^verbatim>\<open>str(e)\<close>; it stands
  for \<^verbatim>\<open>OSError\<close> and for those of its subclasses that no handler of the helper names
  (\<^verbatim>\<open>PermissionError\<close>, \<^verbatim>\<open>FileNotFoundError\<close>, \<^verbatim>\<open>BlockingIOError\<close>).
\<close>

datatype exn =
    OSError string
  | ProcessLookupError
  | ChildProcessError
  | ValueError
  | RecursionError
  | AttributeError
  | TypeError
  | StructError
  | KeyboardInterrupt

text \<open>\<^verbatim>\<open>except OSError\<close> catches the class and its subclasses.\<close>

fun is_OSError :: "exn \<Rightarrow> bool" where
  "is_OSError (OSError m) = True"
| "is_OSError ProcessLookupError = True"
| "is_OSError ChildProcessError = True"
| "is_OSError e = False"

text \<open>
  How a method call ends: it returns, it raises, or (in the forked child only)
  \<^verbatim>\<open>os.execvpe\<close> succeeds and the process no longer runs the helper.
\<close>

datatype ctl = Return | Raise exn | Exec

section \<open>The operating system and the Python library\<close>

text \<open>
  What the system calls answer is an input of the model: one value per call.
\<close>

datatype fork_result = ForkRaises string | ForkReturns int int
datatype exec_result = ExecReplaces | ExecRaises exn
datatype call_result = CallOk | CallRaises string
datatype getcwd_result = GetcwdRaises string | GetcwdReturns string
datatype write_result = WriteReturns nat | WriteRaises string
datatype kill_result = KillOk | KillProcessLookupError | KillRaises string
datatype waitpid_result = WaitpidChildProcessError | WaitpidReturns int int
datatype read_result = ReadRaises string | ReadReturns string
datatype select_result = SelectRaises | SelectReturns "int list"

text \<open>
  \<^item> \<open>ForkReturns p fd\<close> is \<^verbatim>\<open>pty.fork()\<close> returning \<^verbatim>\<open>(p, fd)\<close>: \<open>p = 0\<close> in the child;
    \<open>ForkRaises\<close> is its \<^verbatim>\<open>OSError\<close>.
  \<^item> \<open>KillRaises\<close> is an \<^verbatim>\<open>OSError\<close> of \<^verbatim>\<open>os.kill\<close> other than
    \<^verbatim>\<open>ProcessLookupError\<close> (\<^verbatim>\<open>PermissionError\<close>, when the child runs under another user).
  \<^item> \<open>WaitpidReturns p st\<close> is \<^verbatim>\<open>os.waitpid\<close> returning \<^verbatim>\<open>(p, st)\<close>.
  \<^item> \<open>ReadReturns t\<close> is \<^verbatim>\<open>os.read\<close> returning bytes, given as the text
    \<^verbatim>\<open>decode('utf-8', errors='replace')\<close> makes of them; that decoding never raises and
    yields the empty text exactly for no bytes.
  \<^item> \<open>SelectRaises\<close> is \<^verbatim>\<open>select.error\<close> or \<^verbatim>\<open>ValueError\<close>;
    \<open>SelectReturns fds\<close> is the list of readable descriptors.
\<close>

text \<open>The calls one command can make.\<close>

record cmd_io =
  getcwd_r :: getcwd_result
  fork_r :: fork_result
  exec_r :: exec_result
  fcntl_r :: call_result
  ioctl_r :: call_result
  write_r :: write_result
  kill_r :: kill_result

text \<open>
  The calls of one turn of the event loop; \<open>cmds_io n\<close> serves the \<open>n\<close>-th command
  dispatched in that turn.
\<close>

record iter_io =
  select_r :: select_result
  stdin_r :: read_result
  cmds_io :: "nat \<Rightarrow> cmd_io"
  master_r :: read_result
  waitpid_r :: waitpid_result

text \<open>
  What \<^verbatim>\<open>json.loads\<close> does with a line: it returns a value, it raises
  \<^verbatim>\<open>json.JSONDecodeError\<close> (with the text \<^verbatim>\<open>str(e)\<close>), or it raises another
  exception: \<^verbatim>\<open>RecursionError\<close> on input nested too deeply, plain \<^verbatim>\<open>ValueError\<close> on
  an integer literal with more digits than the interpreter converts.
\<close>

datatype loads_result = LoadsReturns json | LoadsJSONDecodeError string | LoadsRaises exn

text \<open>
  The library functions of Python on text are parameters of the model: \<^verbatim>\<open>json.loads\<close>;
  \<^verbatim>\<open>str\<close>, which the f-string of the unknown-command message applies to the
  discriminator; and \<open>blank\<close>, which says of a line whether \<^verbatim>\<open>line.strip()\<close> is
  empty (\<^verbatim>\<open>str.strip\<close> removes all Unicode white space). A string of the model holds
  the UTF-8 bytes of a Python \<^verbatim>\<open>str\<close>; the byte 10 occurs in it as the newline
  character only.
\<close>

record pylib =
  loads :: "string \<Rightarrow> loads_result"
  str_of :: "json \<Rightarrow> string"
  blank :: "string \<Rightarrow> bool"

text \<open>
  The wait status macros, as \<^verbatim>\<open>sys/wait.h\<close> of Linux defines them on a status
  \<open>0 \<le> st\<close>: the low seven bits are the terminating signal, the next byte up the exit
  status.
\<close>

definition WTERMSIG :: "int \<Rightarrow> int" where
  "WTERMSIG st = st mod 128"

definition WEXITSTATUS :: "int \<Rightarrow> int" where
  "WEXITSTATUS st = (st div 256) mod 256"

definition WIFEXITED :: "int \<Rightarrow> bool" where
  "WIFEXITED st = (WTERMSIG st = 0)"

definition WIFSIGNALED :: "int \<Rightarrow> bool" where
  "WIFSIGNALED st = (WTERMSIG st \<noteq> 0 \<and> WTERMSIG st \<noteq> 127)"

section \<open>The methods of PtyHelper\<close>

text \<open>
  \<^verbatim>\<open>_send\<close>: the message joins the output. The write and the flush are inside a
  \<^verbatim>\<open>try\<close> that swallows \<^verbatim>\<open>OSError\<close>, so \<^verbatim>\<open>_send\<close> always returns.
\<close>

definition send :: "event \<Rightarrow> helper \<Rightarrow> helper" where
  "send msg s = s\<lparr>stdout := stdout s @ [msg]\<rparr>"

text \<open>\<^verbatim>\<open>_set_nonblocking\<close>: two \<^verbatim>\<open>fcntl\<close> calls, no handler.\<close>

definition set_nonblocking :: "call_result \<Rightarrow> ctl" where
  "set_nonblocking r = (case r of CallOk \<Rightarrow> Return | CallRaises m \<Rightarrow> Raise (OSError m))"

text \<open>
  \<^verbatim>\<open>spawn\<close>. The merge \<^verbatim>\<open>{**os.environ, **env}\<close> raises \<^verbatim>\<open>TypeError\<close> unless
  \<^verbatim>\<open>env\<close> is a dict; the merged environment is used by the child only. The tuple
  assignment from \<^verbatim>\<open>pty.fork()\<close> happens only when the call returns. In the child a
  failing \<^verbatim>\<open>os.chdir\<close> is passed over, and \<open>exec_r\<close> is what \<^verbatim>\<open>os.execvpe\<close> does
  (with the evaluation of its arguments).
\<close>

definition spawn :: "cmd_io \<Rightarrow> json \<Rightarrow> json \<Rightarrow> json \<Rightarrow> json \<Rightarrow> helper \<Rightarrow> ctl \<times> helper" where
  "spawn io cmd args cwd env s =
     (case env of
        JObj kvs \<Rightarrow>
          (case fork_r io of
             ForkRaises m \<Rightarrow> (Raise (OSError m), s)
           | ForkReturns p fd \<Rightarrow>
               (let s1 = s\<lparr>pid := Some p, master_fd := Some fd\<rparr> in
                if p = 0 then
                  (case exec_r io of
                     ExecReplaces \<Rightarrow> (Exec, s1)
                   | ExecRaises e \<Rightarrow> (Raise e, s1))
                else
                  (let s2 = s1\<lparr>running := True\<rparr> in
                   case set_nonblocking (fcntl_r io) of
                     Return \<Rightarrow> (Return, send (Spawned p) s2)
                   | c \<Rightarrow> (c, s2))))
      | _ \<Rightarrow> (Raise TypeError, s))"

text \<open>
  \<^verbatim>\<open>struct.pack('HHHH', rows, cols, 0, 0)\<close> takes integers from 0 to 65535 (a
  \<^verbatim>\<open>bool\<close> is an integer) and raises \<^verbatim>\<open>struct.error\<close> on anything else.
\<close>

definition packs_H :: "json \<Rightarrow> bool" where
  "packs_H v = (case v of JInt n \<Rightarrow> 0 \<le> n \<and> n \<le> 65535 | JBool b \<Rightarrow> True | _ \<Rightarrow> False)"

definition resize :: "cmd_io \<Rightarrow> json \<Rightarrow> json \<Rightarrow> helper \<Rightarrow> ctl \<times> helper" where
  "resize io cols rows s =
     (case master_fd s of
        None \<Rightarrow> (Return, s)
      | Some fd \<Rightarrow>
          if packs_H rows \<and> packs_H cols then
            (case ioctl_r io of
               CallOk \<Rightarrow> (Return, s)
             | CallRaises m \<Rightarrow> (Return, s))
          else (Raise StructError, s))"

text \<open>
  \<^verbatim>\<open>write\<close> (here \<open>write_pty\<close>: \<open>write\<close> is a word of the proof language). Only a \<^verbatim>\<open>str\<close> has \<^verbatim>\<open>encode\<close>. (A HOL string is a byte string, so
  the text is its own UTF-8 encoding here.)
\<close>

definition write_pty :: "cmd_io \<Rightarrow> json \<Rightarrow> helper \<Rightarrow> ctl \<times> helper" where
  "write_pty io data s =
     (case master_fd s of
        None \<Rightarrow> (Return, s)
      | Some fd \<Rightarrow>
          (case data of
             JStr d \<Rightarrow>
               (case write_r io of
                  WriteReturns n \<Rightarrow> (Return, s)
                | WriteRaises m \<Rightarrow> (Return, send (Error (''Write failed: '' @ m)) s))
           | _ \<Rightarrow> (Raise AttributeError, s)))"

definition kill :: "cmd_io \<Rightarrow> helper \<Rightarrow> ctl \<times> helper" where
  "kill io s =
     (case pid s of
        None \<Rightarrow> (Return, send Killed (s\<lparr>running := False\<rparr>))
      | Some p \<Rightarrow>
          (case kill_r io of
             KillOk \<Rightarrow> (Return, send Killed (s\<lparr>running := False\<rparr>))
           | KillProcessLookupError \<Rightarrow> (Return, send Killed (s\<lparr>running := False\<rparr>))
           | KillRaises m \<Rightarrow> (Raise (OSError m), s)))"

definition exit_code :: "int \<Rightarrow> int" where
  "exit_code status =
     (if WIFEXITED status then WEXITSTATUS status
      else if WIFSIGNALED status then - WTERMSIG status
      else - 1)"

definition check_exit :: "waitpid_result \<Rightarrow> helper \<Rightarrow> helper" where
  "check_exit w s =
     (case pid s of
        None \<Rightarrow> s
      | Some p \<Rightarrow>
          (case w of
             WaitpidReturns p' status \<Rightarrow>
               if p' \<noteq> 0 then (send (Exit (exit_code status)) s)\<lparr>running := False, pid := None\<rparr>
               else s
           | WaitpidChildProcessError \<Rightarrow>
               (send (Exit (- 1)) s)\<lparr>running := False, pid := None\<rparr>))"

text \<open>
  \<^verbatim>\<open>_handle_command\<close>. The handler around \<^verbatim>\<open>json.loads\<close> names
  \<^verbatim>\<open>json.JSONDecodeError\<close>; any other exception of the call leaves the method. Only
  a dict has \<^verbatim>\<open>get\<close>; a missing \<^verbatim>\<open>"type"\<close> is \<^verbatim>\<open>None\<close>. The arguments of \<^verbatim>\<open>self.spawn\<close> are evaluated before the call, so
  \<^verbatim>\<open>os.getcwd()\<close> runs for every spawn command.
\<close>

definition handle_command :: "pylib \<Rightarrow> cmd_io \<Rightarrow> string \<Rightarrow> helper \<Rightarrow> ctl \<times> helper" where
  "handle_command lib io line s =
     (case loads lib line of
        LoadsJSONDecodeError e \<Rightarrow> (Return, send (Error (''Invalid JSON: '' @ e)) s)
      | LoadsRaises e \<Rightarrow> (Raise e, s)
      | LoadsReturns cmd \<Rightarrow>
          (case cmd of
             JObj kvs \<Rightarrow>
               (let cmd_type = dict_get kvs ''type'' JNull in
                if cmd_type = JStr ''spawn'' then
                  (case getcwd_r io of
                     GetcwdRaises m \<Rightarrow> (Raise (OSError m), s)
                   | GetcwdReturns d \<Rightarrow>
                       spawn io (dict_get kvs ''cmd'' (JStr ''''))
                         (dict_get kvs ''args'' (JArr []))
                         (dict_get kvs ''cwd'' (JStr d))
                         (dict_get kvs ''env'' (JObj [])) s)
                else if cmd_type = JStr ''write'' then
                  write_pty io (dict_get kvs ''data'' (JStr '''')) s
                else if cmd_type = JStr ''resize'' then
                  resize io (dict_get kvs ''cols'' (JInt 80)) (dict_get kvs ''rows'' (JInt 24)) s
                else if cmd_type = JStr ''kill'' then
                  kill io s
                else (Return, send (Error (''Unknown command: '' @ str_of lib cmd_type)) s))
           | _ \<Rightarrow> (Raise AttributeError, s)))"

section \<open>The event loop\<close>

definition nl :: char where
  "nl = CHR 0x0A"

text \<open>
  The inner loop of \<^verbatim>\<open>run\<close>: while the buffer holds a newline, split the first line
  off and dispatch it unless it is blank. \<open>n\<close> counts the commands dispatched so far
  in this turn, and is returned with the buffer that is left. An exception leaves the
  loop at once.
\<close>

function process_lines :: "pylib \<Rightarrow> (nat \<Rightarrow> cmd_io) \<Rightarrow> nat \<Rightarrow> string \<Rightarrow> helper \<Rightarrow> ctl \<times> nat \<times> string \<times> helper" where
  "process_lines lib ios n buffer s =
     (if nl \<in> set buffer then
        (let line = takeWhile (\<lambda>c. c \<noteq> nl) buffer;
             rest = tl (dropWhile (\<lambda>c. c \<noteq> nl) buffer)
         in if \<not> blank lib line then
              (case handle_command lib (ios n) line s of
                 (Return, s') \<Rightarrow> process_lines lib ios (Suc n) rest s'
               | (c, s') \<Rightarrow> (c, Suc n, rest, s'))
            else process_lines lib ios n rest s)
      else (Return, n, buffer, s))"
  by pat_completeness auto
termination
proof (relation "measure (\<lambda>(lib, ios, n, buffer, s). length buffer)")
  have shorter: "length (tl (dropWhile (\<lambda>c. c \<noteq> nl) buffer)) < length buffer"
    if "nl \<in> set buffer" for buffer
  proof -
    from that have "dropWhile (\<lambda>c. c \<noteq> nl) buffer \<noteq> []" by simp
    then have "length (tl (dropWhile (\<lambda>c. c \<noteq> nl) buffer))
                 < length (dropWhile (\<lambda>c. c \<noteq> nl) buffer)"
      by simp
    also have "\<dots> \<le> length buffer" by (rule length_dropWhile_le)
    finally show ?thesis .
  qed
  show "wf (measure (\<lambda>(lib, ios, n, buffer, s). length buffer))" by simp
  show "((lib, ios, Suc n, rest, s'), lib, ios, n, buffer, s)
          \<in> measure (\<lambda>(lib, ios, n, buffer, s). length buffer)"
    if "nl \<in> set buffer" and "rest = tl (dropWhile (\<lambda>c. c \<noteq> nl) buffer)"
    for lib :: pylib and ios :: "nat \<Rightarrow> cmd_io" and n buffer s rest s'
    using that shorter by simp
  show "((lib, ios, n, rest, s), lib, ios, n, buffer, s)
          \<in> measure (\<lambda>(lib, ios, n, buffer, s). length buffer)"
    if "nl \<in> set buffer" and "rest = tl (dropWhile (\<lambda>c. c \<noteq> nl) buffer)"
    for lib :: pylib and ios :: "nat \<Rightarrow> cmd_io" and n buffer s rest
    using that shorter by simp
qed

text \<open>How one turn of \<^verbatim>\<open>while True\<close> ends.\<close>

datatype flow = Continue | Break | Propagate exn | Replaced

definition stdin_fd :: int where
  "stdin_fd = 0"

text \<open>The first \<^verbatim>\<open>if\<close> of the loop body: input from the plugin.\<close>

definition stdin_section :: "pylib \<Rightarrow> iter_io \<Rightarrow> int list \<Rightarrow> string \<Rightarrow> helper \<Rightarrow> flow \<times> string \<times> helper" where
  "stdin_section lib io readable buffer s =
     (if stdin_fd \<in> set readable then
        (case stdin_r io of
           ReadRaises m \<Rightarrow> (Break, buffer, s)
         | ReadReturns chunk \<Rightarrow>
             if chunk = [] then (Break, buffer, s)
             else
               (case process_lines lib (cmds_io io) 0 (buffer @ chunk) s of
                  (Return, n, buffer', s') \<Rightarrow> (Continue, buffer', s')
                | (Raise e, n, buffer', s') \<Rightarrow>
                    if is_OSError e then (Break, buffer', s') else (Propagate e, buffer', s')
                | (Exec, n, buffer', s') \<Rightarrow> (Replaced, buffer', s')))
      else (Continue, buffer, s))"

text \<open>The second \<^verbatim>\<open>if\<close>: output from the PTY.\<close>

definition master_section :: "iter_io \<Rightarrow> int list \<Rightarrow> helper \<Rightarrow> helper" where
  "master_section io readable s =
     (case master_fd s of
        None \<Rightarrow> s
      | Some fd \<Rightarrow>
          if fd \<in> set readable then
            (case master_r io of
               ReadReturns data \<Rightarrow>
                 if data \<noteq> [] then send (Output data) s
                 else check_exit (waitpid_r io) s
             | ReadRaises m \<Rightarrow> check_exit (waitpid_r io) s)
          else s)"

text \<open>One turn of the loop, from \<^verbatim>\<open>select\<close> to the last \<^verbatim>\<open>if\<close>.\<close>

definition iteration :: "pylib \<Rightarrow> iter_io \<Rightarrow> string \<Rightarrow> helper \<Rightarrow> flow \<times> string \<times> helper" where
  "iteration lib io buffer s =
     (case select_r io of
        SelectRaises \<Rightarrow> (Break, buffer, s)
      | SelectReturns readable \<Rightarrow>
          (case stdin_section lib io readable buffer s of
             (Continue, buffer1, s1) \<Rightarrow>
               (let s2 = master_section io readable s1 in
                if pid s2 \<noteq> None \<and> \<not> running s2 then (Break, buffer1, s2)
                else (Continue, buffer1, s2))
           | (f, buffer1, s1) \<Rightarrow> (f, buffer1, s1)))"

text \<open>
  The loop over the turns the environment supplies. \<open>Continue\<close> as the result means the
  loop is still running when the supplied turns are used up.
\<close>

fun loop :: "pylib \<Rightarrow> iter_io list \<Rightarrow> string \<Rightarrow> helper \<Rightarrow> flow \<times> string \<times> helper" where
  "loop lib [] buffer s = (Continue, buffer, s)"
| "loop lib (io # ios) buffer s =
     (case iteration lib io buffer s of
        (Continue, buffer', s') \<Rightarrow> loop lib ios buffer' s'
      | (f, buffer', s') \<Rightarrow> (f, buffer', s'))"

text \<open>\<^verbatim>\<open>run\<close>: the standard input is made non-blocking, then the loop starts on an empty buffer.\<close>

definition run :: "pylib \<Rightarrow> call_result \<Rightarrow> iter_io list \<Rightarrow> helper \<Rightarrow> flow \<times> helper" where
  "run lib nb ios s =
     (case set_nonblocking nb of
        Return \<Rightarrow> (case loop lib ios [] s of (f, buffer, s') \<Rightarrow> (f, s'))
      | Raise e \<Rightarrow> (Propagate e, s)
      | Exec \<Rightarrow> (Replaced, s))"

text \<open>
  \<^verbatim>\<open>main\<close>: the exit status of the helper process, \<open>None\<close> while the loop is still
  running (or when the process was replaced). An exception that leaves \<^verbatim>\<open>main\<close>
  ends the interpreter with status 1, like \<^verbatim>\<open>sys.exit(1)\<close>.
\<close>

definition main :: "pylib \<Rightarrow> call_result \<Rightarrow> iter_io list \<Rightarrow> cmd_io \<Rightarrow> int option \<times> helper" where
  "main lib nb ios kio =
     (case run lib nb ios init of
        (Break, s) \<Rightarrow> (Some 0, s)
      | (Continue, s) \<Rightarrow> (None, s)
      | (Replaced, s) \<Rightarrow> (None, s)
      | (Propagate e, s) \<Rightarrow>
          if e = KeyboardInterrupt then
            (case kill kio s of
               (Return, s') \<Rightarrow> (Some 0, s')
             | (c, s') \<Rightarrow> (Some 1, s'))
          else (Some 1, s))"

section \<open>Trace properties\<close>

text \<open>
  Two monitors read the output of the helper from its first event on. A Session starts
  with a \<open>Spawned\<close> event. The first monitor is violated by an \<open>Exit\<close> event that no
  \<open>Spawned\<close> event precedes since the start or since the last \<open>Exit\<close>: a second exit event
  of one Session. The second one is violated by an \<open>Output\<close> event that follows an
  \<open>Exit\<close> event with no \<open>Spawned\<close> event in between.
\<close>

datatype tracker = Idle | Live | Violated

fun exit_step :: "tracker \<Rightarrow> event \<Rightarrow> tracker" where
  "exit_step Violated e = Violated"
| "exit_step t (Spawned p) = Live"
| "exit_step Live (Exit c) = Idle"
| "exit_step Idle (Exit c) = Violated"
| "exit_step t e = t"

definition exits_once :: "event list \<Rightarrow> bool" where
  "exits_once es = (foldl exit_step Idle es \<noteq> Violated)"

fun output_step :: "tracker \<Rightarrow> event \<Rightarrow> tracker" where
  "output_step Violated e = Violated"
| "output_step t (Spawned p) = Live"
| "output_step t (Exit c) = Idle"
| "output_step Idle (Output d) = Violated"
| "output_step t e = t"

definition no_output_after_exit :: "event list \<Rightarrow> bool" where
  "no_output_after_exit es = (foldl output_step Live es \<noteq> Violated)"

text \<open>
  The invariant of the loop behind the first monitor: it is not violated, and while a
  process identifier is recorded the last Session has had no exit event yet.
\<close>

definition exit_mon :: "helper \<Rightarrow> tracker" where
  "exit_mon s = foldl exit_step Idle (stdout s)"

definition tracked :: "helper \<Rightarrow> bool" where
  "tracked s = (exit_mon s \<noteq> Violated \<and> (pid s = None \<or> exit_mon s = Live))"

section \<open>Concrete inputs\<close>

text \<open>
  The inputs of the examples below: the part of \<^verbatim>\<open>json.loads\<close>, of \<^verbatim>\<open>str\<close> and of
  \<^verbatim>\<open>str.strip\<close> on the lines they use (ASCII lines; a line of more than 4300 digits
  is an integer beyond the default digit limit of the interpreter), a command during which every system call succeeds (the fork returns
  process 4242 on descriptor 5), a turn of the loop in which nothing is readable, a turn
  in which the plugin sends a chunk, and a helper with a live Session.
\<close>

definition demo_loads :: "string \<Rightarrow> loads_result" where
  \<open>demo_loads l =
     (if list_all (\<lambda>c. c = CHR ''1'') l \<and> 4300 < length l then LoadsRaises ValueError
      else if l = ''{"type": "spawn", "cmd": "/bin/sh"}'' then
        LoadsReturns (JObj [(''type'', JStr ''spawn''), (''cmd'', JStr ''/bin/sh'')])
      else if l = ''{"type": "write", "data": "ls"}'' then
        LoadsReturns (JObj [(''type'', JStr ''write''), (''data'', JStr ''ls'')])
      else if l = ''{"type": "resize", "cols": 120}'' then
        LoadsReturns (JObj [(''type'', JStr ''resize''), (''cols'', JInt 120)])
      else if l = ''{"type": "kill"}'' then LoadsReturns (JObj [(''type'', JStr ''kill'')])
      else if l = ''{"type": "ping"}'' then LoadsReturns (JObj [(''type'', JStr ''ping'')])
      else if l = ''42'' then LoadsReturns (JInt 42)
      else LoadsJSONDecodeError ''Expecting value: line 1 column 1 (char 0)'')\<close>

definition demo_str :: "json \<Rightarrow> string" where
  "demo_str v = (case v of JStr t \<Rightarrow> t | JNull \<Rightarrow> ''None'' | _ \<Rightarrow> [])"

text \<open>
  On a line of ASCII characters \<^verbatim>\<open>strip\<close> removes the white space of \<^verbatim>\<open>str.isspace\<close>:
  the characters 9 to 13 and 28 to 32.
\<close>

definition is_space :: "char \<Rightarrow> bool" where
  "is_space c = (of_char c \<in> {9, 10, 11, 12, 13, 28, 29, 30, 31, 32 :: nat})"

definition demo_blank :: "string \<Rightarrow> bool" where
  "demo_blank line = list_all is_space line"

definition demo_lib :: pylib where
  "demo_lib = \<lparr>loads = demo_loads, str_of = demo_str, blank = demo_blank\<rparr>"


definition quiet_io :: cmd_io where
  "quiet_io = \<lparr>getcwd_r = GetcwdReturns ''/'', fork_r = ForkReturns 4242 5,
     exec_r = ExecReplaces, fcntl_r = CallOk, ioctl_r = CallOk,
     write_r = WriteReturns 2, kill_r = KillOk\<rparr>"

definition quiet_turn :: iter_io where
  "quiet_turn = \<lparr>select_r = SelectReturns [],
     stdin_r = ReadRaises ''[Errno 11] Resource temporarily unavailable'',
     cmds_io = (\<lambda>n. quiet_io),
     master_r = ReadRaises ''[Errno 5] Input/output error'',
     waitpid_r = WaitpidReturns 0 0\<rparr>"

definition says :: "string \<Rightarrow> iter_io" where
  "says chunk = quiet_turn\<lparr>select_r := SelectReturns [stdin_fd], stdin_r := ReadReturns chunk\<rparr>"

definition live :: helper where
  "live = \<lparr>master_fd = Some 5, pid = Some 4242, running = True, stdout = [Spawned 4242]\<rparr>"

definition spawn_line :: string where
  \<open>spawn_line = ''{"type": "spawn", "cmd": "/bin/sh"}''\<close>

definition kill_line :: string where
  \<open>kill_line = ''{"type": "kill"}''\<close>

lemmas demo_defs = demo_lib_def demo_loads_def demo_str_def quiet_io_def quiet_turn_def
  says_def live_def spawn_line_def kill_line_def init_def stdin_fd_def nl_def demo_blank_def
  is_space_def dict_get_def

lemmas turn_defs = run_def main_def set_nonblocking_def iteration_def stdin_section_def
  master_section_def handle_command_def send_def

section \<open>Lemmas on the single steps\<close>





lemma handle_command_spawn:
  assumes "loads lib line = LoadsReturns (JObj kvs)" and "dict_get kvs ''type'' JNull = JStr ''spawn''"
    and "getcwd_r io = GetcwdReturns d"
  shows "handle_command lib io line s =
           spawn io (dict_get kvs ''cmd'' (JStr '''')) (dict_get kvs ''args'' (JArr []))
             (dict_get kvs ''cwd'' (JStr d)) (dict_get kvs ''env'' (JObj [])) s"
  using assms by (simp add: handle_command_def)

lemma handle_command_write:
  assumes "loads lib line = LoadsReturns (JObj kvs)" and "dict_get kvs ''type'' JNull = JStr ''write''"
  shows "handle_command lib io line s = write_pty io (dict_get kvs ''data'' (JStr '''')) s"
  using assms by (simp add: handle_command_def)

lemma handle_command_resize:
  assumes "loads lib line = LoadsReturns (JObj kvs)" and "dict_get kvs ''type'' JNull = JStr ''resize''"
  shows "handle_command lib io line s =
           resize io (dict_get kvs ''cols'' (JInt 80)) (dict_get kvs ''rows'' (JInt 24)) s"
  using assms by (simp add: handle_command_def)

lemma handle_command_kill:
  assumes "loads lib line = LoadsReturns (JObj kvs)" and "dict_get kvs ''type'' JNull = JStr ''kill''"
  shows "handle_command lib io line s = kill io s"
  using assms by (simp add: handle_command_def)



lemma spawn_parent:
  "fork_r io = ForkReturns p fd \<Longrightarrow> p \<noteq> 0 \<Longrightarrow> fcntl_r io = CallOk \<Longrightarrow>
     spawn io cmd args cwd (JObj e) s =
       (Return, s\<lparr>pid := Some p, master_fd := Some fd, running := True,
                  stdout := stdout s @ [Spawned p]\<rparr>)"
  by (simp add: spawn_def set_nonblocking_def send_def)

lemma resize_same: "snd (resize io cols rows s) = s"
  by (simp add: resize_def split: option.splits call_result.splits)








section \<open>The invariant of the exit monitor\<close>

lemma exit_mon_send: "exit_mon (send e s) = exit_step (exit_mon s) e"
  by (simp add: exit_mon_def send_def)

lemma exit_mon_update:
  "exit_mon (s\<lparr>pid := x\<rparr>) = exit_mon s"
  "exit_mon (s\<lparr>master_fd := y\<rparr>) = exit_mon s"
  "exit_mon (s\<lparr>running := z\<rparr>) = exit_mon s"
  by (simp_all add: exit_mon_def)

lemma send_fields:
  "pid (send e s) = pid s" "master_fd (send e s) = master_fd s" "running (send e s) = running s"
  by (simp_all add: send_def)

lemma exit_step_Output: "exit_step t (Output d) = t"
  by (cases t) simp_all

lemma exit_step_Error: "exit_step t (Error d) = t"
  by (cases t) simp_all

lemma exit_step_Killed: "exit_step t Killed = t"
  by (cases t) simp_all

lemma exit_step_Spawned: "t \<noteq> Violated \<Longrightarrow> exit_step t (Spawned p) = Live"
  by (cases t) simp_all

lemmas exit_steps = exit_step_Output exit_step_Error exit_step_Killed exit_step_Spawned
  exit_mon_send exit_mon_update send_fields

lemma tracked_init: "tracked init"
  by (simp add: tracked_def exit_mon_def init_def)

lemma tracked_check_exit: "tracked s \<Longrightarrow> tracked (check_exit w s)"
  by (auto simp: tracked_def check_exit_def exit_steps split: option.splits waitpid_result.splits)

lemma tracked_master_section: "tracked s \<Longrightarrow> tracked (master_section io rd s)"
proof (cases "\<exists>d. master_r io = ReadReturns d \<and> d \<noteq> []")
  case True
  assume "tracked s"
  then have "tracked (send (Output d) s)" for d
    by (simp add: tracked_def exit_steps)
  with \<open>tracked s\<close> True show ?thesis
    by (auto simp: master_section_def split: option.splits)
next
  case False
  assume "tracked s"
  with False show ?thesis
    by (auto simp: master_section_def tracked_check_exit split: option.splits read_result.splits)
qed

lemma spawn_tracked:
  assumes "tracked s" and "spawn io cmd args cwd env s = (c, s')"
  shows "exit_mon s' \<noteq> Violated \<and> (c = Return \<longrightarrow> tracked s')"
  using assms
  by (auto simp: spawn_def tracked_def Let_def set_nonblocking_def exit_steps
      split: json.splits fork_result.splits exec_result.splits call_result.splits if_splits)

lemma write_tracked:
  assumes "tracked s" and "write_pty io d s = (c, s')"
  shows "tracked s'"
  using assms
  by (auto simp: write_pty_def tracked_def exit_steps
      split: json.splits option.splits write_result.splits)

lemma kill_exit_mon: "exit_mon (snd (kill io s)) = exit_mon s"
  by (simp add: kill_def exit_steps split: option.splits kill_result.splits)

lemma kill_pid: "pid (snd (kill io s)) = pid s"
  by (simp add: kill_def send_fields split: option.splits kill_result.splits)

lemma kill_tracked:
  assumes "tracked s" and "kill io s = (c, s')"
  shows "tracked s'"
proof -
  from assms(2) have "s' = snd (kill io s)" by simp
  with assms(1) show ?thesis by (simp add: tracked_def kill_exit_mon kill_pid)
qed

lemma handle_command_tracked:
  assumes "tracked s" and "handle_command lib io line s = (c, s')"
  shows "exit_mon s' \<noteq> Violated \<and> (c = Return \<longrightarrow> tracked s')"
proof (cases "loads lib line")
  case (LoadsJSONDecodeError e)
  with assms show ?thesis
    by (auto simp: handle_command_def tracked_def exit_steps)
next
  case (LoadsRaises e)
  with assms show ?thesis
    by (auto simp: handle_command_def tracked_def)
next
  case Inr: (LoadsReturns cmd)
  show ?thesis
  proof (cases "\<exists>kvs. cmd = JObj kvs")
    case False
    with Inr assms show ?thesis
      by (cases cmd) (auto simp: handle_command_def tracked_def)
  next
    case True
    then obtain kvs where cmd: "cmd = JObj kvs" by blast
    let ?t = "dict_get kvs ''type'' JNull"
    from Inr cmd have ld: "loads lib line = LoadsReturns (JObj kvs)" by simp
    consider (c_spawn) "?t = JStr ''spawn''" | (c_write) "?t = JStr ''write''"
      | (c_resize) "?t = JStr ''resize''" | (c_kill) "?t = JStr ''kill''"
      | (c_other) "?t \<noteq> JStr ''spawn''" "?t \<noteq> JStr ''write''"
          "?t \<noteq> JStr ''resize''" "?t \<noteq> JStr ''kill''"
      by blast
    then show ?thesis
    proof cases
      case c_spawn
      show ?thesis
      proof (cases "getcwd_r io")
        case (GetcwdRaises m)
        with c_spawn ld assms show ?thesis
          by (auto simp: handle_command_def tracked_def)
      next
        case (GetcwdReturns d)
        from assms(2) show ?thesis
          unfolding handle_command_spawn[OF ld c_spawn GetcwdReturns]
          using assms(1) by (rule spawn_tracked[rotated])
      qed
    next
      case c_write
      from assms(2) have "tracked s'"
        unfolding handle_command_write[OF ld c_write]
        using assms(1) by (rule write_tracked[rotated])
      then show ?thesis by (simp add: tracked_def)
    next
      case c_resize
      from assms(2) have "s' = s"
        unfolding handle_command_resize[OF ld c_resize]
        using resize_same by (metis snd_conv)
      with assms(1) show ?thesis by (simp add: tracked_def)
    next
      case c_kill
      from assms(2) have "tracked s'"
        unfolding handle_command_kill[OF ld c_kill]
        using assms(1) by (rule kill_tracked[rotated])
      then show ?thesis by (simp add: tracked_def)
    next
      case c_other
      with ld assms show ?thesis
        by (auto simp: handle_command_def tracked_def exit_steps)
    qed
  qed
qed

lemma process_lines_tracked:
  "tracked s \<Longrightarrow> process_lines lib ios n buffer s = (c, m, b, s')
     \<Longrightarrow> exit_mon s' \<noteq> Violated \<and> (c = Return \<longrightarrow> tracked s')"
proof (induction lib ios n buffer s rule: process_lines.induct)
  case (1 lib ios n buffer s)
  show ?case
  proof (cases "nl \<in> set buffer")
    case False
    with "1.prems" show ?thesis
      by (subst (asm) process_lines.simps) (simp add: tracked_def)
  next
    case has: True
    let ?line = "takeWhile (\<lambda>c. c \<noteq> nl) buffer"
    let ?rest = "tl (dropWhile (\<lambda>c. c \<noteq> nl) buffer)"
    show ?thesis
    proof (cases "blank lib ?line")
      case True
      with has "1.prems"(2) have "process_lines lib ios n ?rest s = (c, m, b, s')"
        by (subst (asm) process_lines.simps) (simp add: Let_def)
      with "1.IH"(2)[OF has refl refl _ "1.prems"(1)] True show ?thesis by simp
    next
      case False
      obtain c1 s1 where h: "handle_command lib (ios n) ?line s = (c1, s1)"
        by (cases "handle_command lib (ios n) ?line s")
      from handle_command_tracked[OF "1.prems"(1) h]
      have s1: "exit_mon s1 \<noteq> Violated" "c1 = Return \<longrightarrow> tracked s1" by simp_all
      show ?thesis
      proof (cases "c1 = Return")
        case True
        with has False h "1.prems"(2) have "process_lines lib ios (Suc n) ?rest s1 = (c, m, b, s')"
          by (subst (asm) process_lines.simps) (simp add: Let_def)
        moreover have "tracked s1" using s1 True by simp
        ultimately show ?thesis
          using "1.IH"(1)[OF has refl refl False h[symmetric]] True by simp
      next
        case False
        with has \<open>\<not> blank lib ?line\<close> h "1.prems"(2) have "c = c1" "s' = s1"
          by (subst (asm) process_lines.simps, cases c1; simp add: Let_def)+
        with s1 False show ?thesis by simp
      qed
    qed
  qed
qed

lemma stdin_section_tracked:
  assumes "tracked s" and "stdin_section lib io rd buffer s = (f, b, s')"
  shows "exit_mon s' \<noteq> Violated \<and> (f = Continue \<longrightarrow> tracked s')"
proof (cases "stdin_fd \<in> set rd \<and> (\<exists>chunk. stdin_r io = ReadReturns chunk \<and> chunk \<noteq> [])")
  case False
  with assms show ?thesis
    by (auto simp: stdin_section_def tracked_def split: read_result.splits if_splits)
next
  case True
  then obtain chunk where ch: "stdin_fd \<in> set rd" "stdin_r io = ReadReturns chunk" "chunk \<noteq> []"
    by blast
  obtain c m b1 s1 where p: "process_lines lib (cmds_io io) 0 (buffer @ chunk) s = (c, m, b1, s1)"
    by (cases "process_lines lib (cmds_io io) 0 (buffer @ chunk) s")
  from process_lines_tracked[OF assms(1) p]
  have s1: "exit_mon s1 \<noteq> Violated" "c = Return \<longrightarrow> tracked s1" by simp_all
  from assms(2) ch p have "s' = s1" "f = Continue \<longrightarrow> c = Return"
    by (auto simp: stdin_section_def split: ctl.splits if_splits)
  with s1 show ?thesis by simp
qed

lemma iteration_tracked:
  assumes "tracked s" and "iteration lib io buffer s = (f, b, s')"
  shows "exit_mon s' \<noteq> Violated \<and> (f = Continue \<longrightarrow> tracked s')"
proof (cases "select_r io")
  case SelectRaises
  with assms show ?thesis by (auto simp: iteration_def tracked_def)
next
  case (SelectReturns rd)
  obtain f1 b1 s1 where st: "stdin_section lib io rd buffer s = (f1, b1, s1)"
    by (cases "stdin_section lib io rd buffer s")
  from stdin_section_tracked[OF assms(1) st]
  have s1: "exit_mon s1 \<noteq> Violated" "f1 = Continue \<longrightarrow> tracked s1" by simp_all
  show ?thesis
  proof (cases "f1 = Continue")
    case True
    then have "tracked (master_section io rd s1)" using s1 tracked_master_section by simp
    moreover from assms(2) SelectReturns st True have "s' = master_section io rd s1"
      by (auto simp: iteration_def Let_def split: if_splits)
    ultimately show ?thesis by (simp add: tracked_def)
  next
    case False
    with assms(2) SelectReturns st have "s' = s1" "f = f1"
      by (cases f1; simp add: iteration_def)+
    with s1 False show ?thesis by simp
  qed
qed

lemma loop_tracked: "tracked s \<Longrightarrow> exit_mon (snd (snd (loop lib ios buffer s))) \<noteq> Violated"
proof (induction ios arbitrary: buffer s)
  case Nil
  then show ?case by (simp add: tracked_def)
next
  case (Cons io ios)
  obtain f b s' where it: "iteration lib io buffer s = (f, b, s')"
    by (cases "iteration lib io buffer s")
  from iteration_tracked[OF Cons.prems it]
  have s': "exit_mon s' \<noteq> Violated" "f = Continue \<longrightarrow> tracked s'" by simp_all
  show ?case
  proof (cases "f = Continue")
    case True
    with it s' Cons.IH show ?thesis by simp
  next
    case False
    with it s' show ?thesis by (cases f) simp_all
  qed
qed

lemma run_tracked: "exit_mon (snd (run lib nb ios init)) \<noteq> Violated"
proof (cases nb)
  case CallOk
  then show ?thesis
    using loop_tracked[OF tracked_init, of lib ios "[]"]
    by (auto simp: run_def set_nonblocking_def split: prod.splits)
next
  case (CallRaises m)
  then show ?thesis
    by (simp add: run_def set_nonblocking_def exit_mon_def init_def)
qed

lemma main_tracked: "exit_mon (snd (main lib nb ios kio)) \<noteq> Violated"
proof -
  obtain f s where r: "run lib nb ios init = (f, s)" by (cases "run lib nb ios init")
  with run_tracked[of lib nb ios] have s: "exit_mon s \<noteq> Violated" by simp
  obtain c s' where k: "kill kio s = (c, s')" by (cases "kill kio s")
  with kill_exit_mon[of kio s] s have "exit_mon s' \<noteq> Violated" by simp
  with r s k show ?thesis
    by (cases f; cases c) (simp_all add: main_def)
qed









text \<open>
  The exit code on the statuses the kernel builds: exit status \<open>c\<close> is \<open>c * 256\<close>,
  death by signal \<open>sig\<close> is \<open>sig\<close>, or \<open>sig + 128\<close> with a core dump.
\<close>

lemma exit_code_exited: "0 \<le> c \<Longrightarrow> c < 256 \<Longrightarrow> exit_code (c * 256) = c"
  by (simp add: exit_code_def WIFEXITED_def WTERMSIG_def WEXITSTATUS_def)

lemma exit_code_signaled: "0 < sig \<Longrightarrow> sig < 127 \<Longrightarrow> exit_code sig = - sig"
  by (simp add: exit_code_def WIFEXITED_def WIFSIGNALED_def WTERMSIG_def)

lemma exit_code_dumped: "0 < sig \<Longrightarrow> sig < 127 \<Longrightarrow> exit_code (sig + 128) = - sig"
  by (simp add: exit_code_def WIFEXITED_def WIFSIGNALED_def WTERMSIG_def)



section \<open>The claims\<close>

text \<open>
  C1, as the specification states it, fails: it asks that every Session has at most one
  exit event and that no output event follows the exit event of a Session. The exit
  check clears the process identifier but keeps the PTY descriptor, which the loop
  goes on reading. In the run below the child is spawned, the PTY reports end of file and
  the child is reaped (exit event), and a later read of the same descriptor returns
  data, which is emitted as an output event.
\<close>

theorem output_after_exit_counterexample:
  "stdout (snd (run demo_lib CallOk
       [says (spawn_line @ [nl]),
        quiet_turn\<lparr>select_r := SelectReturns [5], master_r := ReadReturns [],
                    waitpid_r := WaitpidReturns 4242 0\<rparr>,
        quiet_turn\<lparr>select_r := SelectReturns [5], master_r := ReadReturns ''late''\<rparr>]
       init))
     = [Spawned 4242, Exit 0, Output ''late'']
   \<and> \<not> no_output_after_exit [Spawned 4242, Exit 0, Output ''late'']"
  by (simp add: turn_defs demo_defs spawn_def check_exit_def exit_code_def WIFEXITED_def
      WTERMSIG_def WEXITSTATUS_def no_output_after_exit_def)

text \<open>
  C1, amended: in every run of the helper, whatever the plugin sends and the system
  answers, every Session has at most one exit event: each exit event is preceded by a
  spawned event with no other exit event in between. This holds for the output of
  \<open>run\<close> and for that of \<open>main\<close>.
\<close>

theorem exit_at_most_once:
  "exits_once (stdout (snd (run lib nb ios init)))
   \<and> exits_once (stdout (snd (main lib nb ios kio)))"
  using run_tracked[of lib nb ios] main_tracked[of lib nb ios kio]
  by (simp add: exits_once_def exit_mon_def)

theorem exit_at_most_once_witness:
  "stdout (snd (run demo_lib CallOk
       [says (spawn_line @ [nl]),
        quiet_turn\<lparr>select_r := SelectReturns [5], waitpid_r := WaitpidChildProcessError\<rparr>,
        quiet_turn\<lparr>select_r := SelectReturns [5], waitpid_r := WaitpidReturns 4242 0\<rparr>]
       init))
     = [Spawned 4242, Exit (- 1)]
   \<and> exits_once [Spawned 4242, Exit (- 1)]"
proof -
  let ?ios = "[says (spawn_line @ [nl]),
        quiet_turn\<lparr>select_r := SelectReturns [5], waitpid_r := WaitpidChildProcessError\<rparr>,
        quiet_turn\<lparr>select_r := SelectReturns [5], waitpid_r := WaitpidReturns 4242 0\<rparr>]"
  have "stdout (snd (run demo_lib CallOk ?ios init)) = [Spawned 4242, Exit (- 1)]"
    by (simp add: turn_defs demo_defs spawn_def check_exit_def)
  with exit_at_most_once[of demo_lib CallOk ?ios] show ?thesis by simp
qed




text \<open>
  C3, as the specification states it, fails: it asks that every kill command, whether
  or not a child exists and whether or not the signal is delivered, yields exactly one
  killed event and clears the running flag. \<open>kill\<close> passes over
  \<^verbatim>\<open>ProcessLookupError\<close> only. Here the child runs under another user and
  \<^verbatim>\<open>os.kill\<close> raises \<^verbatim>\<open>PermissionError\<close>: the exception leaves the command
  handler, no killed event is emitted and the running flag stays set.
\<close>

theorem kill_denied_counterexample:
  "handle_command demo_lib (quiet_io\<lparr>kill_r := KillRaises ''[Errno 1] Operation not permitted''\<rparr>)
      kill_line live
     = (Raise (OSError ''[Errno 1] Operation not permitted''), live)
   \<and> stdout live = [Spawned 4242] \<and> running live"
  by (simp add: turn_defs demo_defs kill_def)

text \<open>
  C3, amended: a kill command runs \<open>kill\<close>. When no child is recorded, when the signal
  is delivered, and when \<^verbatim>\<open>os.kill\<close> fails because the process does not exist, the
  helper emits exactly one killed event and clears the running flag, changing nothing
  else. When a child is recorded and \<^verbatim>\<open>os.kill\<close> fails with another \<^verbatim>\<open>OSError\<close>,
  that error is raised, no event is emitted and the helper is unchanged.
\<close>

theorem kill_emits_killed:
  "(loads lib line = LoadsReturns (JObj kvs) \<and> dict_get kvs ''type'' JNull = JStr ''kill'' \<longrightarrow>
      handle_command lib io line s = kill io s)
   \<and> (pid s = None \<or> kill_r io = KillOk \<or> kill_r io = KillProcessLookupError \<longrightarrow>
      kill io s = (Return, s\<lparr>running := False, stdout := stdout s @ [Killed]\<rparr>))
   \<and> (pid s = Some p \<and> kill_r io = KillRaises m \<longrightarrow> kill io s = (Raise (OSError m), s))"
  by (auto simp: handle_command_kill kill_def send_def split: option.splits kill_result.splits)

theorem kill_emits_killed_witness:
  "handle_command demo_lib (quiet_io\<lparr>kill_r := KillProcessLookupError\<rparr>) kill_line init
     = (Return, init\<lparr>running := False, stdout := [Killed]\<rparr>)
   \<and> kill (quiet_io\<lparr>kill_r := KillProcessLookupError\<rparr>) live
     = (Return, live\<lparr>running := False, stdout := [Spawned 4242, Killed]\<rparr>)
   \<and> kill (quiet_io\<lparr>kill_r := KillRaises ''[Errno 1] Operation not permitted''\<rparr>) live
     = (Raise (OSError ''[Errno 1] Operation not permitted''), live)"
proof -
  let ?kvs = "[(''type'', JStr ''kill'')]"
  let ?gone = "quiet_io\<lparr>kill_r := KillProcessLookupError\<rparr>"
  let ?denied = "quiet_io\<lparr>kill_r := KillRaises ''[Errno 1] Operation not permitted''\<rparr>"
  have h: "loads demo_lib kill_line = LoadsReturns (JObj ?kvs) \<and> dict_get ?kvs ''type'' JNull = JStr ''kill''"
    "pid init = None" "kill_r ?gone = KillProcessLookupError"
    "pid live = Some 4242 \<and> kill_r ?denied = KillRaises ''[Errno 1] Operation not permitted''"
    "stdout init = []" "stdout live = [Spawned 4242]"
    by (simp_all add: demo_defs)
  have "handle_command demo_lib ?gone kill_line init = kill ?gone init"
    using kill_emits_killed[where lib = demo_lib and line = kill_line and kvs = ?kvs
        and io = ?gone and s = init] h(1) by blast
  moreover have "kill ?gone init = (Return, init\<lparr>running := False, stdout := stdout init @ [Killed]\<rparr>)"
    using kill_emits_killed[where io = ?gone and s = init] h(2) by blast
  moreover have "kill ?gone live = (Return, live\<lparr>running := False, stdout := stdout live @ [Killed]\<rparr>)"
    using kill_emits_killed[where io = ?gone and s = live] h(3) by blast
  moreover have "kill ?denied live = (Raise (OSError ''[Errno 1] Operation not permitted''), live)"
    using kill_emits_killed[where io = ?denied and s = live and p = 4242
        and m = "''[Errno 1] Operation not permitted''"] h(4) by blast
  ultimately show ?thesis using h(5,6) by simp
qed

text \<open>
  C4: an exit check that finds the child terminated (\<^verbatim>\<open>os.waitpid\<close> returns a
  non-zero process identifier, or raises \<^verbatim>\<open>ChildProcessError\<close>) emits exactly one
  exit event, whose code is the exit status of a child that exited normally, the negated
  signal number of a child a signal terminated, and \<open>-1\<close> when the status is neither or
  the child could not be reaped; it clears the running flag and the process identifier
  and changes nothing else, and any exit check after it does nothing.
\<close>

theorem check_exit_terminated:
  assumes "pid s = Some p"
    and "w = WaitpidChildProcessError \<or> w = WaitpidReturns p' st \<and> p' \<noteq> 0"
  shows "check_exit w s =
           s\<lparr>stdout := stdout s @
                [Exit (if w = WaitpidChildProcessError then - 1
                       else if WIFEXITED st then WEXITSTATUS st
                       else if WIFSIGNALED st then - WTERMSIG st
                       else - 1)],
             running := False, pid := None\<rparr>
         \<and> check_exit w' (check_exit w s) = check_exit w s"
  using assms by (auto simp: check_exit_def send_def exit_code_def)

theorem check_exit_terminated_witness:
  "check_exit (WaitpidReturns 4242 768) live
     = live\<lparr>stdout := [Spawned 4242, Exit 3], running := False, pid := None\<rparr>
   \<and> check_exit (WaitpidReturns 4242 15) live
     = live\<lparr>stdout := [Spawned 4242, Exit (- 15)], running := False, pid := None\<rparr>
   \<and> check_exit (WaitpidReturns 4242 4991) live
     = live\<lparr>stdout := [Spawned 4242, Exit (- 1)], running := False, pid := None\<rparr>
   \<and> check_exit WaitpidChildProcessError live
     = live\<lparr>stdout := [Spawned 4242, Exit (- 1)], running := False, pid := None\<rparr>
   \<and> check_exit (WaitpidReturns 4242 768) (check_exit (WaitpidReturns 4242 768) live)
     = check_exit (WaitpidReturns 4242 768) live"
proof -
  have p: "pid live = Some 4242" by (simp add: live_def)
  have w: "WaitpidReturns 4242 st = WaitpidChildProcessError
             \<or> WaitpidReturns 4242 st = WaitpidReturns 4242 st \<and> (4242 :: int) \<noteq> 0" for st
    by simp
  have c: "WaitpidChildProcessError = WaitpidChildProcessError
             \<or> WaitpidChildProcessError = WaitpidReturns 0 0 \<and> (0 :: int) \<noteq> 0"
    by simp
  have macros: "WIFEXITED 768" "WEXITSTATUS 768 = 3"
    "\<not> WIFEXITED 15" "WIFSIGNALED 15" "WTERMSIG 15 = 15"
    "\<not> WIFEXITED 4991" "\<not> WIFSIGNALED 4991"
    by (simp_all add: WIFEXITED_def WIFSIGNALED_def WEXITSTATUS_def WTERMSIG_def)
  have out: "stdout live = [Spawned 4242]" by (simp add: live_def)
  note exited = check_exit_terminated[OF p w, where st = 768 and w' = "WaitpidReturns 4242 768"]
  note signaled = check_exit_terminated[OF p w, where st = 15 and w' = "WaitpidReturns 0 0"]
  note stopped = check_exit_terminated[OF p w, where st = 4991 and w' = "WaitpidReturns 0 0"]
  note lost = check_exit_terminated[OF p c, where w' = "WaitpidReturns 0 0"]
  have a: "check_exit (WaitpidReturns 4242 768) live
     = live\<lparr>stdout := [Spawned 4242, Exit 3], running := False, pid := None\<rparr>"
    using exited[THEN conjunct1] macros out by simp
  have b: "check_exit (WaitpidReturns 4242 15) live
     = live\<lparr>stdout := [Spawned 4242, Exit (- 15)], running := False, pid := None\<rparr>"
    using signaled[THEN conjunct1] macros out by simp
  have d: "check_exit (WaitpidReturns 4242 4991) live
     = live\<lparr>stdout := [Spawned 4242, Exit (- 1)], running := False, pid := None\<rparr>"
    using stopped[THEN conjunct1] macros out by simp
  have e: "check_exit WaitpidChildProcessError live
     = live\<lparr>stdout := [Spawned 4242, Exit (- 1)], running := False, pid := None\<rparr>"
    using lost[THEN conjunct1] out by simp
  show ?thesis
    by (intro conjI) (rule a, rule b, rule d, rule e, rule exited[THEN conjunct2])
qed




text \<open>
  C6, as the specification states it, fails: it asks that a second spawn command while a
  Session is active is rejected or ignored, the process identifier and the PTY
  descriptor of the active Session staying as they are. \<open>spawn\<close> has no such guard.
  Here the helper has a live Session (process 4242 on descriptor 5) and a second spawn
  command forks process 4343 on descriptor 6.
\<close>

theorem second_spawn_counterexample:
  "pid live = Some 4242 \<and> master_fd live = Some 5 \<and> running live
   \<and> handle_command demo_lib (quiet_io\<lparr>fork_r := ForkReturns 4343 6\<rparr>) spawn_line live
     = (Return, \<lparr>master_fd = Some 6, pid = Some 4343, running = True,
                 stdout = [Spawned 4242, Spawned 4343]\<rparr>)"
  by (simp add: turn_defs demo_defs spawn_def)

text \<open>
  C6, amended: the helper neither rejects nor ignores a spawn command that arrives while
  a Session is active. Whatever the helper holds, a spawn command that reaches
  \<^verbatim>\<open>pty.fork()\<close> (\<^verbatim>\<open>os.getcwd()\<close> has returned and \<^verbatim>\<open>env\<close> is an object) and whose fork succeeds
  records, in the parent, the new child's process identifier and PTY descriptor in
  place of the former ones and sets the running flag. It then emits a spawned event
  with the new process identifier and returns, unless making the new descriptor
  non-blocking fails: then that \<^verbatim>\<open>OSError\<close> is raised and no event is emitted, the new
  identifier, descriptor and flag staying recorded.
\<close>

theorem spawn_replaces_session:
  assumes "loads lib line = LoadsReturns (JObj kvs)"
    and "dict_get kvs ''type'' JNull = JStr ''spawn''"
    and "dict_get kvs ''env'' (JObj []) = JObj e"
    and "getcwd_r io = GetcwdReturns d"
    and "fork_r io = ForkReturns p fd" and "p \<noteq> 0"
  shows "(fcntl_r io = CallOk \<longrightarrow>
            handle_command lib io line s =
              (Return, s\<lparr>pid := Some p, master_fd := Some fd, running := True,
                         stdout := stdout s @ [Spawned p]\<rparr>))
       \<and> (fcntl_r io = CallRaises m \<longrightarrow>
            handle_command lib io line s =
              (Raise (OSError m), s\<lparr>pid := Some p, master_fd := Some fd, running := True\<rparr>))"
  using assms
  by (simp add: handle_command_spawn spawn_parent)
     (simp add: spawn_def set_nonblocking_def)

theorem spawn_replaces_session_witness:
  "handle_command demo_lib (quiet_io\<lparr>fork_r := ForkReturns 4343 6\<rparr>) spawn_line
      (live\<lparr>running := False\<rparr>)
     = (Return, \<lparr>master_fd = Some 6, pid = Some 4343, running = True,
                 stdout = [Spawned 4242, Spawned 4343]\<rparr>)
   \<and> handle_command demo_lib
        (quiet_io\<lparr>fork_r := ForkReturns 4343 6, fcntl_r := CallRaises ''[Errno 9] Bad file descriptor''\<rparr>)
        spawn_line live
     = (Raise (OSError ''[Errno 9] Bad file descriptor''),
        \<lparr>master_fd = Some 6, pid = Some 4343, running = True, stdout = [Spawned 4242]\<rparr>)"
proof -
  let ?kvs = "[(''type'', JStr ''spawn''), (''cmd'', JStr ''/bin/sh'')]"
  let ?io = "quiet_io\<lparr>fork_r := ForkReturns 4343 6\<rparr>"
  let ?bad = "quiet_io\<lparr>fork_r := ForkReturns 4343 6,
                fcntl_r := CallRaises ''[Errno 9] Bad file descriptor''\<rparr>"
  have h: "loads demo_lib spawn_line = LoadsReturns (JObj ?kvs)"
    "dict_get ?kvs ''type'' JNull = JStr ''spawn''"
    "dict_get ?kvs ''env'' (JObj []) = JObj []"
    by (simp_all add: demo_defs)
  have io: "getcwd_r ?io = GetcwdReturns ''/''" "fork_r ?io = ForkReturns 4343 6"
    and bad: "getcwd_r ?bad = GetcwdReturns ''/''" "fork_r ?bad = ForkReturns 4343 6"
    and nz: "(4343 :: int) \<noteq> 0"
    and ok: "fcntl_r ?io = CallOk"
    and raises: "fcntl_r ?bad = CallRaises ''[Errno 9] Bad file descriptor''"
    by (simp_all add: demo_defs)
  have a: "handle_command demo_lib ?io spawn_line (live\<lparr>running := False\<rparr>)
      = (Return, (live\<lparr>running := False\<rparr>)\<lparr>pid := Some 4343, master_fd := Some 6, running := True,
                 stdout := stdout (live\<lparr>running := False\<rparr>) @ [Spawned 4343]\<rparr>)"
    by (rule spawn_replaces_session[OF h io nz, where s = "live\<lparr>running := False\<rparr>",
          THEN conjunct1, THEN mp, OF ok])
  have b: "handle_command demo_lib ?bad spawn_line live
      = (Raise (OSError ''[Errno 9] Bad file descriptor''),
         live\<lparr>pid := Some 4343, master_fd := Some 6, running := True\<rparr>)"
    by (rule spawn_replaces_session[OF h bad nz, where s = live
          and m = "''[Errno 9] Bad file descriptor''", THEN conjunct2, THEN mp, OF raises])
  from a b show ?thesis by (simp add: live_def)
qed

text \<open>
  C7: a write command runs \<open>write_pty\<close>. Without a PTY descriptor it does nothing and
  emits nothing. With a descriptor, a failing \<^verbatim>\<open>os.write\<close> yields exactly one error
  event, whose message is \<open>Write failed: \<close> followed by the text of the failure, and
  the running flag, the process identifier and the descriptor stay as they are.
\<close>

theorem write_failure_reported:
  "(loads lib line = LoadsReturns (JObj kvs) \<and> dict_get kvs ''type'' JNull = JStr ''write'' \<longrightarrow>
      handle_command lib io line s = write_pty io (dict_get kvs ''data'' (JStr '''')) s)
   \<and> (master_fd s = None \<longrightarrow> write_pty io data s = (Return, s))
   \<and> (master_fd s = Some fd \<and> write_r io = WriteRaises m \<longrightarrow>
        write_pty io (JStr d) s
          = (Return, s\<lparr>stdout := stdout s @ [Error (''Write failed: '' @ m)]\<rparr>)
        \<and> running (snd (write_pty io (JStr d) s)) = running s
        \<and> pid (snd (write_pty io (JStr d) s)) = pid s
        \<and> master_fd (snd (write_pty io (JStr d) s)) = master_fd s)"
  by (auto simp: handle_command_write write_pty_def send_def)

theorem write_failure_reported_witness:
  \<open>handle_command demo_lib quiet_io ''{"type": "write", "data": "ls"}'' init = (Return, init)
   \<and> write_pty (quiet_io\<lparr>write_r := WriteRaises ''[Errno 5] Input/output error''\<rparr>) (JStr ''ls'') live
     = (Return, live\<lparr>stdout := [Spawned 4242, Error ''Write failed: [Errno 5] Input/output error'']\<rparr>)\<close>
proof -
  let ?line = \<open>''{"type": "write", "data": "ls"}''\<close>
  let ?kvs = "[(''type'', JStr ''write''), (''data'', JStr ''ls'')]"
  let ?io = "quiet_io\<lparr>write_r := WriteRaises ''[Errno 5] Input/output error''\<rparr>"
  have h: "loads demo_lib ?line = LoadsReturns (JObj ?kvs) \<and> dict_get ?kvs ''type'' JNull = JStr ''write''"
    "master_fd init = None"
    "master_fd live = Some 5 \<and> write_r ?io = WriteRaises ''[Errno 5] Input/output error''"
    "stdout live = [Spawned 4242]"
    by (simp_all add: demo_defs)
  have "handle_command demo_lib quiet_io ?line init
          = write_pty quiet_io (dict_get ?kvs ''data'' (JStr '''')) init"
    using write_failure_reported[where lib = demo_lib and line = ?line and kvs = ?kvs
        and io = quiet_io and s = init] h(1) by blast
  moreover have "write_pty quiet_io (dict_get ?kvs ''data'' (JStr '''')) init = (Return, init)"
    using write_failure_reported[where s = init and io = quiet_io] h(2) by blast
  moreover have "write_pty ?io (JStr ''ls'') live
      = (Return, live\<lparr>stdout := stdout live @ [Error (''Write failed: '' @ ''[Errno 5] Input/output error'')]\<rparr>)"
    using write_failure_reported[where s = live and io = ?io and fd = 5
        and m = "''[Errno 5] Input/output error''" and d = "''ls''"] h(3) by blast
  ultimately show ?thesis using h(4) by simp
qed

text \<open>
  C8: a resize command runs \<open>resize\<close>, which never emits an event and never changes the
  helper, whatever its arguments and whatever the \<^verbatim>\<open>ioctl\<close> answers; when the
  \<^verbatim>\<open>ioctl\<close> on the PTY descriptor fails, \<open>resize\<close> returns as if it had succeeded.
\<close>

theorem resize_never_reports:
  "snd (resize io cols rows s) = s
   \<and> stdout (snd (resize io cols rows s)) = stdout s
   \<and> (loads lib line = LoadsReturns (JObj kvs) \<and> dict_get kvs ''type'' JNull = JStr ''resize'' \<longrightarrow>
        snd (handle_command lib io line s) = s)
   \<and> (master_fd s = Some fd \<and> packs_H rows \<and> packs_H cols \<and> ioctl_r io = CallRaises m \<longrightarrow>
        resize io cols rows s = (Return, s))"
  by (auto simp: handle_command_resize resize_same) (simp add: resize_def)

theorem resize_never_reports_witness:
  \<open>snd (handle_command demo_lib (quiet_io\<lparr>ioctl_r := CallRaises ''[Errno 9] Bad file descriptor''\<rparr>)
         ''{"type": "resize", "cols": 120}'' live) = live
   \<and> resize (quiet_io\<lparr>ioctl_r := CallRaises ''[Errno 9] Bad file descriptor''\<rparr>)
        (JInt 120) (JInt 24) live = (Return, live)\<close>
proof -
  let ?line = \<open>''{"type": "resize", "cols": 120}''\<close>
  let ?kvs = "[(''type'', JStr ''resize''), (''cols'', JInt 120)]"
  let ?io = "quiet_io\<lparr>ioctl_r := CallRaises ''[Errno 9] Bad file descriptor''\<rparr>"
  have h: "loads demo_lib ?line = LoadsReturns (JObj ?kvs) \<and> dict_get ?kvs ''type'' JNull = JStr ''resize''"
    "master_fd live = Some 5 \<and> packs_H (JInt 24) \<and> packs_H (JInt 120)
       \<and> ioctl_r ?io = CallRaises ''[Errno 9] Bad file descriptor''"
    by (simp_all add: demo_defs packs_H_def)
  have "snd (handle_command demo_lib ?io ?line live) = live"
    using resize_never_reports[where lib = demo_lib and line = ?line and kvs = ?kvs
        and io = ?io and s = live] h(1) by blast
  moreover have "resize ?io (JInt 120) (JInt 24) live = (Return, live)"
    using resize_never_reports[where io = ?io and s = live and fd = 5 and rows = "JInt 24"
        and cols = "JInt 120" and m = "''[Errno 9] Bad file descriptor''"] h(2) by blast
  ultimately show ?thesis by simp
qed






end
